theory Spec2Isabelle
  imports Main
begin

section \<open>Shared accumulator merge: \<open>merge_dicts\<close> (market\_scan\_workflow.py)\<close>

text \<open>
  A Python dictionary is a finite map; \<open>None\<close> in an argument position is the
  value \<open>None\<close> of the option type. \<open>left.copy()\<close> followed by
  \<open>update(right)\<close> is the right-biased map addition.
\<close>

fun merge_dicts :: "('k \<rightharpoonup> 'v) option \<Rightarrow> ('k \<rightharpoonup> 'v) option \<Rightarrow> ('k \<rightharpoonup> 'v) option" where
  "merge_dicts None right = right"
| "merge_dicts (Some left) None = Some left"
| "merge_dicts (Some left) (Some right) = Some (left ++ right)"

section \<open>Text primitives used by pdf\_utils.py\<close>

text \<open>
  A string is a list of characters with codes below 256. The character classes are the
  ones Python applies to such characters: \<open>str.isspace\<close> (also the class \<open>\s\<close> of
  \<open>re\<close>) holds for the codes 9 to 13, 28 to 32, 133 and 160; \<open>\d\<close> for the
  decimal digits; \<open>[A-Z]\<close> for the codes 65 to 90. \<open>str.upper\<close> is modelled on the
  ASCII letters.
\<close>

definition isspace :: "char \<Rightarrow> bool" where
  "isspace c = (let n = (of_char c :: nat) in (9 \<le> n \<and> n \<le> 13) \<or> (28 \<le> n \<and> n \<le> 32) \<or> n = 133 \<or> n = 160)"

definition isdigit :: "char \<Rightarrow> bool" where
  "isdigit c = (let n = (of_char c :: nat) in 48 \<le> n \<and> n \<le> 57)"

definition is_A_Z :: "char \<Rightarrow> bool" where
  "is_A_Z c = (let n = (of_char c :: nat) in 65 \<le> n \<and> n \<le> 90)"

definition lstrip :: "string \<Rightarrow> string" where
  "lstrip s = dropWhile isspace s"

definition rstrip :: "string \<Rightarrow> string" where
  "rstrip s = rev (dropWhile isspace (rev s))"

definition strip :: "string \<Rightarrow> string" where
  "strip s = rstrip (lstrip s)"





section \<open>Bookmarks and section ranges (pdf\_utils.py)\<close>

record bookmark =
  title :: string
  page :: int

record section_range =
  sec_title :: string
  start_page :: int
  end_page :: int
  page_count :: int

text \<open>
  \<open>re.match(r'^\d+\.\s+[A-Z\s]+$', title)\<close>: one or more digits, a period, one or more
  whitespace characters, then one or more characters that are capital letters or
  whitespace, up to the end. As \<open>\s\<close> is part of the last class, a split between the two
  last groups exists exactly when the character after the period is whitespace and it is
  followed by at least one more character, all of them in the class; the \<open>$\<close> before a
  final newline gives nothing more, a newline being in the class too.
\<close>

definition matches_main_section :: "string \<Rightarrow> bool" where
  "matches_main_section t =
     (takeWhile isdigit t \<noteq> [] \<and>
      (case dropWhile isdigit t of
         c # d # cs \<Rightarrow> c = CHR ''.'' \<and> isspace d \<and> cs \<noteq> [] \<and> list_all (\<lambda>x. is_A_Z x \<or> isspace x) cs
       | _ \<Rightarrow> False))"

text \<open>
  \<open>filter_main_sections\<close>: keep the bookmarks whose stripped title matches, then the
  stable \<open>list.sort\<close> by page. On bookmarks that carry a string title and an integer page
  nothing in the body raises, so the handler that falls back to all bookmarks is not
  entered.
\<close>

definition filter_main_sections :: "bookmark list \<Rightarrow> bookmark list" where
  "filter_main_sections bookmarks =
     sort_key page (filter (\<lambda>b. matches_main_section (strip (title b))) bookmarks)"

text \<open>
  The \<open>for i, bookmark in enumerate(sorted_sections)\<close> loop of \<open>get_bookmark_ranges\<close>:
  \<open>sorted_sections[i + 1]\<close> is the head of the remaining list.
\<close>

fun ranges_loop :: "bookmark list \<Rightarrow> int \<Rightarrow> section_range list" where
  "ranges_loop [] total_pages = []"
| "ranges_loop (b # rest) total_pages =
     (let s = page b;
          e = (case rest of nxt # _ \<Rightarrow> page nxt - 1 | [] \<Rightarrow> total_pages - 1)
      in if e \<ge> s
         then \<lparr>sec_title = title b, start_page = s, end_page = e,
               page_count = e - s + 1\<rparr> # ranges_loop rest total_pages
         else ranges_loop rest total_pages)"

definition get_bookmark_ranges :: "bookmark list \<Rightarrow> int \<Rightarrow> section_range list" where
  "get_bookmark_ranges bookmarks total_pages =
     (let main_sections = filter_main_sections bookmarks
      in if main_sections = [] then []
         else ranges_loop (sort_key page main_sections) total_pages)"



section \<open>Outline parsing and section extraction (pdf\_utils.py)\<close>

text \<open>
  An exception value (an instance of Python's \<open>Exception\<close>, which is what the
  handlers of the source catch) carries its message, the text of \<open>str(e)\<close>.
\<close>

datatype exn = Exn string














section \<open>Prompt catalogue (prompt\_manager.py)\<close>

text \<open>
  \<open>prompts_data['nodes']\<close> maps a node identifier to its configuration, of which the
  \<open>enabled\<close> entry (possibly absent) and the prompt template matter here;
  \<open>prompts_cache\<close> maps node identifiers to cached templates. Checking the variables
  and \<open>str.format\<close> are one operation of the surroundings, which may raise
  \<open>ValueError\<close>. A keyword argument may be \<open>None\<close>.
\<close>

record node_config =
  enabled :: "bool option"
  prompt_template :: string

record prompt_mgr =
  nodes :: "string \<rightharpoonup> node_config"
  prompts_cache :: "string \<rightharpoonup> string"
  format_template :: "string \<Rightarrow> (string \<times> string option) list \<Rightarrow> exn + string"

definition key_error :: "string \<Rightarrow> exn" where
  "key_error msg = Exn ([CHR 0x22] @ msg @ [CHR 0x22])"

definition is_node_enabled :: "prompt_mgr \<Rightarrow> string \<Rightarrow> exn + bool" where
  "is_node_enabled pm node_id =
     (case nodes pm node_id of
        None \<Rightarrow> Inl (key_error (''Node '' @ [CHR 0x27] @ node_id @ [CHR 0x27] @ '' not found''))
      | Some cfg \<Rightarrow> Inr (case enabled cfg of None \<Rightarrow> True | Some b \<Rightarrow> b))"

text \<open>
  \<open>get_prompt\<close>; the list of available nodes that ends the message of its \<open>KeyError\<close>
  is left out of the message.
\<close>

definition get_prompt :: "prompt_mgr \<Rightarrow> string \<Rightarrow> (string \<times> string option) list \<Rightarrow> exn + string" where
  "get_prompt pm node_id variables =
     (case nodes pm node_id of
        None \<Rightarrow> Inl (key_error (''Node '' @ [CHR 0x27] @ node_id @ [CHR 0x27] @ '' not found.''))
      | Some cfg \<Rightarrow>
          format_template pm
            (case prompts_cache pm node_id of Some t \<Rightarrow> t | None \<Rightarrow> prompt_template cfg)
            variables)"

section \<open>Workflow state and node functions (market\_scan\_workflow.py)\<close>

text \<open>
  The values that occur in the dictionaries a node returns and in the result of \<open>run\<close>.
\<close>

datatype pyval = PyNone | PyBool bool | PyStr string | PyList "string list"
  | PyDict "string \<rightharpoonup> string"

type_synonym pydict = "string \<rightharpoonup> pyval"

definition py_optional :: "string option \<Rightarrow> pyval" where
  "py_optional v = (case v of None \<Rightarrow> PyNone | Some s \<Rightarrow> PyStr s)"

text \<open>Truth value of an \<open>Optional[str]\<close>: \<open>None\<close> and the empty string are false.\<close>

definition truthy :: "string option \<Rightarrow> bool" where
  "truthy v = (case v of None \<Rightarrow> False | Some s \<Rightarrow> s \<noteq> [])"




text \<open>
  \<open>MarketScanState\<close>. \<open>run\<close> creates the state with every key present, so a field is
  never missing and the defaults of \<open>state.get\<close> are not used; an \<open>Optional\<close> field may
  hold \<open>None\<close>.
\<close>

record market_scan_state =
  company_name :: string
  pdf_path :: "string option"
  pdf_processed :: bool
  pdf_chunks :: "(string \<rightharpoonup> string) option"
  company_overview :: "string option"
  industry_overview :: "string option"
  promoters_directors :: "string option"
  credit_rating :: "string option"
  financials :: "string option"
  compliance_checks :: "string option"
  news_checks :: "string option"
  final_report :: "string option"
  errors :: "string list"
  processing_status :: "string \<rightharpoonup> string"

text \<open>
  The workflow object and what it reaches outside: the prompt catalogue, the search and
  document services (each returns an \<open>Optional[str]\<close> or raises), the file operations of
  the report writer, the clock as the three texts the reports print, and the compiled
  graph's \<open>invoke\<close>.
\<close>

record workflow =
  prompt_manager :: prompt_mgr
  perform_search_analysis :: "string \<Rightarrow> string \<Rightarrow> string \<Rightarrow> exn + string option"
  analyze_pdf_from_path :: "string option \<Rightarrow> string \<Rightarrow> string \<Rightarrow> exn + string option"
  analyze_text_content :: "string \<Rightarrow> string \<Rightarrow> string \<Rightarrow> exn + string option"
  write_file :: "string \<Rightarrow> string \<Rightarrow> exn + unit"
  remove_file :: "string \<Rightarrow> exn + unit"
  make_report_dir :: "exn + unit"
  report_date :: string
  report_year :: string
  timestamp :: string
  graph_invoke :: "market_scan_state \<Rightarrow> exn + market_scan_state"

text \<open>Sequencing of steps that may raise: the first exception ends the sequence.\<close>

definition and_then :: "exn + 'a \<Rightarrow> ('a \<Rightarrow> exn + 'b) \<Rightarrow> exn + 'b" where
  "and_then r f = (case r of Inl e \<Rightarrow> Inl e | Inr v \<Rightarrow> f v)"

definition should_execute_node :: "workflow \<Rightarrow> string \<Rightarrow> bool" where
  "should_execute_node self node_id =
     (case is_node_enabled (prompt_manager self) node_id of
        Inl e \<Rightarrow> True
      | Inr b \<Rightarrow> b)"

text \<open>
  The four search nodes (1, 2, 6 and 7) are one text in the source up to the node
  identifier and two messages; \<open>search_node\<close> is that text with the three as parameters.
\<close>

definition search_node ::
  "string \<Rightarrow> string \<Rightarrow> string \<Rightarrow> workflow \<Rightarrow> market_scan_state \<Rightarrow> pydict" where
  "search_node node_id failure_message error_prefix self state =
     (if \<not> should_execute_node self node_id
      then [''processing_status'' \<mapsto> PyDict [node_id \<mapsto> ''skipped'']]
      else
        (case and_then
                (get_prompt (prompt_manager self) node_id
                   [(''company_name'', Some (company_name state))])
                (\<lambda>prompt. perform_search_analysis self (company_name state) prompt node_id) of
           Inl (Exn msg) \<Rightarrow>
             [''errors'' \<mapsto> PyList [error_prefix @ msg],
              ''processing_status'' \<mapsto> PyDict [node_id \<mapsto> ''failed'']]
         | Inr result \<Rightarrow>
             if truthy result
             then [node_id \<mapsto> py_optional result,
                   ''processing_status'' \<mapsto> PyDict [node_id \<mapsto> ''completed'']]
             else [''errors'' \<mapsto> PyList [failure_message],
                   ''processing_status'' \<mapsto> PyDict [node_id \<mapsto> ''failed'']]))"

definition company_overview_node :: "workflow \<Rightarrow> market_scan_state \<Rightarrow> pydict" where
  "company_overview_node =
     search_node ''company_overview'' ''Failed to analyze company overview''
       ''Company overview error: ''"

definition industry_overview_node :: "workflow \<Rightarrow> market_scan_state \<Rightarrow> pydict" where
  "industry_overview_node =
     search_node ''industry_overview'' ''Failed to analyze industry overview''
       ''Industry overview error: ''"

definition compliance_checks_node :: "workflow \<Rightarrow> market_scan_state \<Rightarrow> pydict" where
  "compliance_checks_node =
     search_node ''compliance_checks'' ''Failed to perform compliance checks''
       ''Compliance checks error: ''"

definition news_checks_node :: "workflow \<Rightarrow> market_scan_state \<Rightarrow> pydict" where
  "news_checks_node =
     search_node ''news_checks'' ''Failed to analyze news'' ''News analysis error: ''"

text \<open>
  The three document nodes (3, 4 and 5), likewise one text up to the node identifier, the
  key of the chunk and three messages. Inside the \<open>try\<close>, the first log line evaluates
  \<open>state.get('pdf_chunks', {}).keys()\<close>, which raises \<open>AttributeError\<close> when the field
  holds \<open>None\<close>.
\<close>

definition pdf_node ::
  "string \<Rightarrow> string \<Rightarrow> string \<Rightarrow> string \<Rightarrow> string \<Rightarrow> workflow \<Rightarrow> market_scan_state \<Rightarrow> pydict" where
  "pdf_node node_id chunk_key skip_message failure_message error_prefix self state =
     (if \<not> should_execute_node self node_id
      then [''processing_status'' \<mapsto> PyDict [node_id \<mapsto> ''skipped'']]
      else
        (case
           (case pdf_chunks state of
              None \<Rightarrow>
                Inl (Exn ([CHR 0x27] @ ''NoneType'' @ [CHR 0x27] @ '' object has no attribute ''
                          @ [CHR 0x27] @ ''keys'' @ [CHR 0x27]))
            | Some chunks \<Rightarrow>
                if \<not> pdf_processed state
                then Inr [''errors'' \<mapsto> PyList [skip_message],
                          ''processing_status'' \<mapsto> PyDict [node_id \<mapsto> ''skipped'']]
                else
                  and_then
                    (get_prompt (prompt_manager self) node_id
                       [(''company_name'', Some (company_name state))])
                    (\<lambda>prompt.
                       and_then
                         (analyze_pdf_from_path self
                            (if truthy (chunks chunk_key) then chunks chunk_key else pdf_path state)
                            (company_name state) prompt)
                         (\<lambda>result.
                            Inr (if truthy result
                                 then [node_id \<mapsto> py_optional result,
                                       ''processing_status'' \<mapsto> PyDict [node_id \<mapsto> ''completed'']]
                                 else [''errors'' \<mapsto> PyList [failure_message],
                                       ''processing_status'' \<mapsto> PyDict [node_id \<mapsto> ''failed'']]))))
         of
           Inl (Exn msg) \<Rightarrow>
             [''errors'' \<mapsto> PyList [error_prefix @ msg],
              ''processing_status'' \<mapsto> PyDict [node_id \<mapsto> ''failed'']]
         | Inr delta \<Rightarrow> delta))"

definition promoters_directors_node :: "workflow \<Rightarrow> market_scan_state \<Rightarrow> pydict" where
  "promoters_directors_node =
     pdf_node ''promoters_directors'' ''directors''
       ''PDF not processed, skipping directors analysis''
       ''Failed to analyze promoters and directors'' ''Promoters/Directors error: ''"

definition credit_rating_node :: "workflow \<Rightarrow> market_scan_state \<Rightarrow> pydict" where
  "credit_rating_node =
     pdf_node ''credit_rating'' ''rating''
       ''PDF not processed, skipping credit rating analysis''
       ''Failed to analyze credit rating'' ''Credit rating error: ''"

definition financials_node :: "workflow \<Rightarrow> market_scan_state \<Rightarrow> pydict" where
  "financials_node =
     pdf_node ''financials'' ''financials''
       ''PDF not processed, skipping financial analysis''
       ''Failed to analyze financials'' ''Financial analysis error: ''"

text \<open>The seven analysis node functions, each with the node identifier it fixes.\<close>

definition analysis_nodes :: "(string \<times> (workflow \<Rightarrow> market_scan_state \<Rightarrow> pydict)) list" where
  "analysis_nodes =
     [(''company_overview'', company_overview_node),
      (''industry_overview'', industry_overview_node),
      (''promoters_directors'', promoters_directors_node),
      (''credit_rating'', credit_rating_node),
      (''financials'', financials_node),
      (''compliance_checks'', compliance_checks_node),
      (''news_checks'', news_checks_node)]"

section \<open>Report assembly and the report writer (market\_scan\_workflow.py)\<close>


















section \<open>The entry point \<open>run\<close>\<close>



section \<open>Properties of the status-map merge\<close>

text \<open>
  C10. \<open>None\<close> is a two-sided identity of \<open>merge_dicts\<close>; on a key that the right
  dictionary holds the right value wins (elsewhere the left value stays); and two
  dictionaries with disjoint key sets merge to the same dictionary in either order.
\<close>

theorem merge_dicts_identity_right_bias_comm:
  fixes d :: "('k \<rightharpoonup> 'v) option" and l r a b :: "'k \<rightharpoonup> 'v"
  shows "merge_dicts None d = d \<and> merge_dicts d None = d \<and>
         (\<exists>m. merge_dicts (Some l) (Some r) = Some m \<and>
              (\<forall>k. m k = (case r k of Some v \<Rightarrow> Some v | None \<Rightarrow> l k))) \<and>
         (dom a \<inter> dom b = {} \<longrightarrow>
            merge_dicts (Some a) (Some b) = merge_dicts (Some b) (Some a))"
proof -
  have id_r: "merge_dicts d None = d" by (cases d) simp_all
  have bias: "\<forall>k. (l ++ r) k = (case r k of Some v \<Rightarrow> Some v | None \<Rightarrow> l k)"
    by (simp add: map_add_def split: option.splits)
  have comm: "dom a \<inter> dom b = {} \<longrightarrow> a ++ b = b ++ a"
    using map_add_comm [of a b] by blast
  show ?thesis using id_r bias comm by simp
qed

theorem merge_dicts_identity_right_bias_comm_witness:
  "dom [''company_overview'' \<mapsto> ''completed''] \<inter> dom [''news_checks'' \<mapsto> ''failed''] = {} \<and>
   merge_dicts (Some [''company_overview'' \<mapsto> ''completed'']) (Some [''news_checks'' \<mapsto> ''failed''])
   = merge_dicts (Some [''news_checks'' \<mapsto> ''failed'']) (Some [''company_overview'' \<mapsto> ''completed''])"
  using merge_dicts_identity_right_bias_comm
    [of None "[''company_overview'' \<mapsto> ''completed'']" "[''news_checks'' \<mapsto> ''failed'']"
        "[''company_overview'' \<mapsto> ''completed'']" "[''news_checks'' \<mapsto> ''failed'']"]
  by simp
section \<open>Properties of the range calculator\<close>













text \<open>
  C4. Four bookmarks whose titles have the canonical form, on pages 0, 5, 12 and 30 of a
  40-page document, give exactly the ranges \<open>(0, 4)\<close>, \<open>(5, 11)\<close>, \<open>(12, 29)\<close>
  and \<open>(30, 39)\<close>, and their \<open>page_count\<close> fields add up to 40.
\<close>

theorem get_bookmark_ranges_four_sections:
  assumes "matches_main_section (strip t1)" and "matches_main_section (strip t2)"
    and "matches_main_section (strip t3)" and "matches_main_section (strip t4)"
  shows "get_bookmark_ranges
           [\<lparr>title = t1, page = 0\<rparr>, \<lparr>title = t2, page = 5\<rparr>,
            \<lparr>title = t3, page = 12\<rparr>, \<lparr>title = t4, page = 30\<rparr>] 40
         = [\<lparr>sec_title = t1, start_page = 0, end_page = 4, page_count = 5\<rparr>,
            \<lparr>sec_title = t2, start_page = 5, end_page = 11, page_count = 7\<rparr>,
            \<lparr>sec_title = t3, start_page = 12, end_page = 29, page_count = 18\<rparr>,
            \<lparr>sec_title = t4, start_page = 30, end_page = 39, page_count = 10\<rparr>] \<and>
         sum_list (map page_count (get_bookmark_ranges
           [\<lparr>title = t1, page = 0\<rparr>, \<lparr>title = t2, page = 5\<rparr>,
            \<lparr>title = t3, page = 12\<rparr>, \<lparr>title = t4, page = 30\<rparr>] 40)) = 40"
  using assms by (simp add: get_bookmark_ranges_def filter_main_sections_def Let_def)

theorem get_bookmark_ranges_four_sections_witness:
  "matches_main_section (strip ''1. PROFILE'') \<and> matches_main_section (strip ''2. DIRECTORS'') \<and>
   matches_main_section (strip ''4. RATING'') \<and> matches_main_section (strip ''5. FINANCIALS'') \<and>
   map (\<lambda>r. (start_page r, end_page r)) (get_bookmark_ranges
           [\<lparr>title = ''1. PROFILE'', page = 0\<rparr>, \<lparr>title = ''2. DIRECTORS'', page = 5\<rparr>,
            \<lparr>title = ''4. RATING'', page = 12\<rparr>, \<lparr>title = ''5. FINANCIALS'', page = 30\<rparr>] 40)
     = [(0, 4), (5, 11), (12, 29), (30, 39)]"
proof -
  have m1: "matches_main_section (strip ''1. PROFILE'')" by code_simp
  have m2: "matches_main_section (strip ''2. DIRECTORS'')" by code_simp
  have m3: "matches_main_section (strip ''4. RATING'')" by code_simp
  have m4: "matches_main_section (strip ''5. FINANCIALS'')" by code_simp
  show ?thesis
    using m1 m2 m3 m4 get_bookmark_ranges_four_sections [OF m1 m2 m3 m4] by simp
qed
section \<open>Properties of the outline parser and the section extractor\<close>






















section \<open>Properties of the analysis nodes\<close>

lemma search_node_disabled:
  "\<not> should_execute_node self node_id \<Longrightarrow>
     search_node node_id fm ep self state = [''processing_status'' \<mapsto> PyDict [node_id \<mapsto> ''skipped'']]"
  by (simp add: search_node_def)

lemma pdf_node_disabled:
  "\<not> should_execute_node self node_id \<Longrightarrow>
     pdf_node node_id ck sm fm ep self state = [''processing_status'' \<mapsto> PyDict [node_id \<mapsto> ''skipped'']]"
  by (simp add: pdf_node_def)

lemma analysis_nodes_cases:
  assumes "(node_id, node) \<in> set analysis_nodes"
  shows "(\<exists>fm ep. node = search_node node_id fm ep) \<or> (\<exists>ck sm fm ep. node = pdf_node node_id ck sm fm ep)"
proof -
  from assms have
    "node = search_node node_id ''Failed to analyze company overview'' ''Company overview error: '' \<or>
     node = search_node node_id ''Failed to analyze industry overview'' ''Industry overview error: '' \<or>
     node = pdf_node node_id ''directors'' ''PDF not processed, skipping directors analysis''
              ''Failed to analyze promoters and directors'' ''Promoters/Directors error: '' \<or>
     node = pdf_node node_id ''rating'' ''PDF not processed, skipping credit rating analysis''
              ''Failed to analyze credit rating'' ''Credit rating error: '' \<or>
     node = pdf_node node_id ''financials'' ''PDF not processed, skipping financial analysis''
              ''Failed to analyze financials'' ''Financial analysis error: '' \<or>
     node = search_node node_id ''Failed to perform compliance checks'' ''Compliance checks error: '' \<or>
     node = search_node node_id ''Failed to analyze news'' ''News analysis error: ''"
    by (simp add: analysis_nodes_def company_overview_node_def industry_overview_node_def
          promoters_directors_node_def credit_rating_node_def financials_node_def
          compliance_checks_node_def news_checks_node_def) blast
  then show ?thesis by blast
qed

lemma analysis_nodes_not_status:
  assumes "(node_id, node) \<in> set analysis_nodes"
  shows "node_id \<noteq> ''processing_status'' \<and> node_id \<noteq> ''errors''"
  using assms by (auto simp: analysis_nodes_def)

text \<open>
  C6. For each of the seven analysis node functions: when the enablement check reports
  the node disabled, the returned dictionary has the single key \<open>processing_status\<close>,
  which maps the node to \<open>skipped\<close>; it has no \<open>errors\<close> entry and no output slot.
\<close>

theorem disabled_node_is_skipped:
  assumes dis: "is_node_enabled (prompt_manager self) node_id = Inr False"
    and mem: "(node_id, node) \<in> set analysis_nodes"
  shows "node self state ''processing_status'' = Some (PyDict [node_id \<mapsto> ''skipped'']) \<and>
         node self state ''errors'' = None \<and>
         node self state node_id = None \<and>
         dom (node self state) = {''processing_status''}"
proof -
  from dis have ns: "\<not> should_execute_node self node_id"
    by (simp add: should_execute_node_def)
  have d: "node self state = [''processing_status'' \<mapsto> PyDict [node_id \<mapsto> ''skipped'']]"
  proof -
    from analysis_nodes_cases [OF mem] consider
        (search) fm ep where "node = search_node node_id fm ep"
      | (pdf) ck sm fm ep where "node = pdf_node node_id ck sm fm ep"
      by blast
    then show ?thesis
    proof cases
      case search
      with search_node_disabled [OF ns] show ?thesis by simp
    next
      case pdf
      with pdf_node_disabled [OF ns] show ?thesis by simp
    qed
  qed
  from analysis_nodes_not_status [OF mem] d show ?thesis by simp
qed

theorem disabled_node_is_skipped_witness:
  "let self = \<lparr>prompt_manager =
                  \<lparr>nodes = [''compliance_checks'' \<mapsto>
                              \<lparr>enabled = Some False, prompt_template = ''Check {company_name}''\<rparr>],
                   prompts_cache = Map.empty,
                   format_template = (\<lambda>t vs. Inr t)\<rparr>,
               perform_search_analysis = (\<lambda>c p n. Inr (Some ''text'')),
               analyze_pdf_from_path = (\<lambda>f c p. Inr None),
               analyze_text_content = (\<lambda>t p c. Inr None),
               write_file = (\<lambda>f t. Inr ()),
               remove_file = (\<lambda>f. Inr ()),
               make_report_dir = Inr (),
               report_date = ''17-Aug-2025'', report_year = ''2025'',
               timestamp = ''20250817_120000'',
               graph_invoke = (\<lambda>s. Inr s)\<rparr>;
       state = \<lparr>company_name = ''Acme Ltd'', pdf_path = None, pdf_processed = False,
                pdf_chunks = None, company_overview = None, industry_overview = None,
                promoters_directors = None, credit_rating = None, financials = None,
                compliance_checks = None, news_checks = None, final_report = None,
                errors = [], processing_status = Map.empty\<rparr>
   in is_node_enabled (prompt_manager self) ''compliance_checks'' = Inr False \<and>
      compliance_checks_node self state ''processing_status''
        = Some (PyDict [''compliance_checks'' \<mapsto> ''skipped'']) \<and>
      compliance_checks_node self state ''errors'' = None \<and>
      compliance_checks_node self state ''compliance_checks'' = None"
proof -
  let ?self = "\<lparr>prompt_manager =
                  \<lparr>nodes = [''compliance_checks'' \<mapsto>
                              \<lparr>enabled = Some False, prompt_template = ''Check {company_name}''\<rparr>],
                   prompts_cache = Map.empty,
                   format_template = (\<lambda>t vs. Inr t)\<rparr>,
               perform_search_analysis = (\<lambda>c p n. Inr (Some ''text'')),
               analyze_pdf_from_path = (\<lambda>f c p. Inr None),
               analyze_text_content = (\<lambda>t p c. Inr None),
               write_file = (\<lambda>f t. Inr ()),
               remove_file = (\<lambda>f. Inr ()),
               make_report_dir = Inr (),
               report_date = ''17-Aug-2025'', report_year = ''2025'',
               timestamp = ''20250817_120000'',
               graph_invoke = (\<lambda>s. Inr s)\<rparr>"
  have h: "is_node_enabled (prompt_manager ?self) ''compliance_checks'' = Inr False"
    by (simp add: is_node_enabled_def)
  have m: "(''compliance_checks'', compliance_checks_node) \<in> set analysis_nodes"
    by (simp add: analysis_nodes_def)
  show ?thesis
    unfolding Let_def using h disabled_node_is_skipped [OF h m] by simp
qed




section \<open>Properties of \<open>run\<close>\<close>


section \<open>Properties of the report assembly and the report writer\<close>






















end
